theory Spec2Isabelle
  imports Complex_Main
begin

section \<open>JavaScript values used by the site script\<close>

text \<open>
  The script \<^verbatim>\<open>js/main.js\<close> is DOM event wiring. Each handler is embedded as a
  function on an explicit record of the browser state it reads and writes. Reading a
  property of \<^verbatim>\<open>null\<close> raises a TypeError and an invalid selector raises a
  SyntaxError; a handler that raises keeps the writes it made before the exception, so
  a completion carries the state in both cases.
\<close>

datatype js_error = TypeError | SyntaxError

datatype 'a completion =
  is_Normal: Normal (state_of: 'a)
| Throw (thrown: js_error) (state_of: 'a)

fun andThen :: "'a completion \<Rightarrow> ('a \<Rightarrow> 'a completion) \<Rightarrow> 'a completion" where
  "andThen (Normal s) f = f s"
| "andThen (Throw e s) f = Throw e s"

text \<open>
  Truthiness of a value that is \<^verbatim>\<open>null\<close> or a string: \<^verbatim>\<open>null\<close> and the empty
  string are falsy. \<open>js_or v d\<close> is \<^verbatim>\<open>v || d\<close>.
\<close>

fun truthy :: "string option \<Rightarrow> bool" where
  "truthy None = False"
| "truthy (Some v) = (v \<noteq> [])"

fun js_or :: "string option \<Rightarrow> string \<Rightarrow> string" where
  "js_or None d = d"
| "js_or (Some v) d = (if v = [] then d else v)"

text \<open>A \<^verbatim>\<open>classList\<close> is an ordered set of tokens.\<close>

definition classList_add :: "string \<Rightarrow> string list \<Rightarrow> string list" where
  "classList_add c cl = (if c \<in> set cl then cl else cl @ [c])"

definition classList_remove :: "string \<Rightarrow> string list \<Rightarrow> string list" where
  "classList_remove c cl = removeAll c cl"

section \<open>ThemeManager (main.js, lines 41--99)\<close>

text \<open>
  \<open>themeToggle\<close> and \<open>themeIcon\<close> are the results of \<^verbatim>\<open>getElementById\<close>
  (\<open>None\<close> is \<^verbatim>\<open>null\<close>); the object's fields refer to these same elements.
  \<open>dataTheme\<close> is the \<^verbatim>\<open>data-theme\<close> attribute of the root element,
  \<open>prefersDark\<close> what the media query \<^verbatim>\<open>(prefers-color-scheme: dark)\<close> reports.
  \<open>currentTheme\<close> is assigned first thing by the constructor, so its value in the
  page handed to the constructor is irrelevant. The storage is taken to be available:
  \<^verbatim>\<open>getItem\<close> and \<^verbatim>\<open>setItem\<close> do not raise. \<open>timeouts\<close> are the delays of the
  pending \<^verbatim>\<open>setTimeout\<close> callbacks of \<open>toggleTheme\<close>, oldest first.
\<close>

record toggle_el =
  ariaLabel :: "string option"
  styleTransform :: string

record icon_el =
  className :: string

record theme_state =
  themeToggle :: "toggle_el option"
  themeIcon :: "icon_el option"
  currentTheme :: string
  dataTheme :: "string option"
  localStorage :: "string \<rightharpoonup> string"
  prefersDark :: bool
  clickListener :: bool
  changeListener :: bool
  timeouts :: "nat list"

definition icon_set_className :: "string \<Rightarrow> theme_state \<Rightarrow> theme_state completion" where
  "icon_set_className c s =
     (case themeIcon s of
        None \<Rightarrow> Throw TypeError s
      | Some ic \<Rightarrow> Normal (s\<lparr>themeIcon := Some (ic\<lparr>className := c\<rparr>)\<rparr>))"

definition toggle_set_ariaLabel :: "string \<Rightarrow> theme_state \<Rightarrow> theme_state completion" where
  "toggle_set_ariaLabel l s =
     (case themeToggle s of
        None \<Rightarrow> Throw TypeError s
      | Some tg \<Rightarrow> Normal (s\<lparr>themeToggle := Some (tg\<lparr>ariaLabel := Some l\<rparr>)\<rparr>))"

definition toggle_set_transform :: "string \<Rightarrow> theme_state \<Rightarrow> theme_state completion" where
  "toggle_set_transform t s =
     (case themeToggle s of
        None \<Rightarrow> Throw TypeError s
      | Some tg \<Rightarrow> Normal (s\<lparr>themeToggle := Some (tg\<lparr>styleTransform := t\<rparr>)\<rparr>))"

definition toggle_addClickListener :: "theme_state \<Rightarrow> theme_state completion" where
  "toggle_addClickListener s =
     (case themeToggle s of
        None \<Rightarrow> Throw TypeError s
      | Some tg \<Rightarrow> Normal (s\<lparr>clickListener := True\<rparr>))"

definition setTheme :: "string \<Rightarrow> theme_state \<Rightarrow> theme_state completion" where
  "setTheme theme s =
     andThen
       (andThen (Normal (s\<lparr>currentTheme := theme, dataTheme := Some theme\<rparr>))
          (\<lambda>s1. if theme = ''dark''
                then andThen (icon_set_className ''fas fa-sun'' s1)
                       (toggle_set_ariaLabel ''Switch to light mode'')
                else andThen (icon_set_className ''fas fa-moon'' s1)
                       (toggle_set_ariaLabel ''Switch to dark mode'')))
       (\<lambda>s2. Normal (s2\<lparr>localStorage := (localStorage s2)(''theme'' \<mapsto> theme)\<rparr>))"

definition toggleTheme :: "theme_state \<Rightarrow> theme_state completion" where
  "toggleTheme s =
     (let newTheme = (if currentTheme s = ''light'' then ''dark'' else ''light'')
      in andThen (andThen (setTheme newTheme s) (toggle_set_transform ''rotate(360deg)''))
           (\<lambda>s1. Normal (s1\<lparr>timeouts := timeouts s1 @ [300]\<rparr>)))"

definition onSystemThemeChange :: "bool \<Rightarrow> theme_state \<Rightarrow> theme_state completion" where
  "onSystemThemeChange matches s =
     (if \<not> truthy (localStorage s ''theme'')
      then setTheme (if matches then ''dark'' else ''light'') s
      else Normal s)"

definition init :: "theme_state \<Rightarrow> theme_state completion" where
  "init s =
     andThen (andThen (setTheme (currentTheme s) s) toggle_addClickListener)
       (\<lambda>s1. Normal (s1\<lparr>changeListener := True\<rparr>))"

definition ThemeManager_new :: "theme_state \<Rightarrow> theme_state completion" where
  "ThemeManager_new s =
     init (s\<lparr>currentTheme := js_or (localStorage s ''theme'') ''light''\<rparr>)"

text \<open>
  The events that reach the theme manager once the page runs: a click on the toggle
  control, a change notification of the media query, and the expiry of the oldest
  pending timeout. A listener that was never registered does nothing. An exception
  raised by a listener is reported by the browser and the page goes on from the state
  the listener left.
\<close>

datatype event = ToggleClick | SystemThemeChange bool | TimeoutFires

fun dispatch :: "event \<Rightarrow> theme_state \<Rightarrow> theme_state completion" where
  "dispatch ToggleClick s =
     (if themeToggle s \<noteq> None \<and> clickListener s then toggleTheme s else Normal s)"
| "dispatch (SystemThemeChange m) s =
     (if changeListener s then onSystemThemeChange m (s\<lparr>prefersDark := m\<rparr>)
      else Normal (s\<lparr>prefersDark := m\<rparr>))"
| "dispatch TimeoutFires s =
     (case timeouts s of
        [] \<Rightarrow> Normal s
      | t # ts \<Rightarrow> toggle_set_transform [] (s\<lparr>timeouts := ts\<rparr>))"

fun run :: "event list \<Rightarrow> theme_state \<Rightarrow> theme_state" where
  "run [] s = s"
| "run (e # es) s = run es (state_of (dispatch e s))"

section \<open>Reveal on scroll (main.js, lines 101--119)\<close>

text \<open>
  The document's elements are numbered; \<open>d el\<close> is the \<^verbatim>\<open>classList\<close> of element
  \<open>el\<close>. The observer's callback receives a batch of entries and visits them in order.
\<close>

type_synonym elem = nat

record io_entry =
  target :: elem
  isIntersecting :: bool

definition reveal_entry :: "(elem \<Rightarrow> string list) \<Rightarrow> io_entry \<Rightarrow> (elem \<Rightarrow> string list)" where
  "reveal_entry d entry =
     (if isIntersecting entry
      then d(target entry := classList_add ''fade-in'' (d (target entry)))
      else d)"

definition observer_callback :: "io_entry list \<Rightarrow> (elem \<Rightarrow> string list) \<Rightarrow> (elem \<Rightarrow> string list)" where
  "observer_callback entries d = foldl reveal_entry d entries"

text \<open>Successive invocations of the callback, oldest batch first.\<close>

definition observer_callbacks :: "io_entry list list \<Rightarrow> (elem \<Rightarrow> string list) \<Rightarrow> (elem \<Rightarrow> string list)" where
  "observer_callbacks batches d = foldl (\<lambda>d' entries. observer_callback entries d') d batches"

section \<open>Contact form (main.js, lines 121--144)\<close>

text \<open>
  \<open>fieldValues\<close> are the current contents of the form's named controls, which is what
  \<^verbatim>\<open>new FormData(this)\<close> snapshots and \<^verbatim>\<open>formData.get\<close> reads (\<^verbatim>\<open>null\<close> for a
  name the form does not have); \<open>fieldDefaults\<close> are the contents \<^verbatim>\<open>reset()\<close>
  restores. \<open>alerts\<close> lists the messages shown so far.
\<close>

record form_page =
  fieldValues :: "string \<rightharpoonup> string"
  fieldDefaults :: "string \<rightharpoonup> string"
  alerts :: "string list"
  submitPrevented :: bool

definition form_reset :: "form_page \<Rightarrow> form_page" where
  "form_reset p = p\<lparr>fieldValues := fieldDefaults p\<rparr>"

definition contactForm_submit :: "form_page \<Rightarrow> form_page" where
  "contactForm_submit p =
     (let p1 = p\<lparr>submitPrevented := True\<rparr>;
          name = fieldValues p1 ''name'';
          email = fieldValues p1 ''email'';
          message = fieldValues p1 ''message''
      in if \<not> truthy name \<or> \<not> truthy email \<or> \<not> truthy message
         then p1\<lparr>alerts := alerts p1 @ [''Please fill in all fields.'']\<rparr>
         else form_reset
                (p1\<lparr>alerts := alerts p1
                   @ [''Thank you for your message! I'' @ [CHR 0x27] @ ''ll get back to you soon.'']\<rparr>))"

section \<open>Smooth scrolling for navigation anchors (main.js, lines 1--19)\<close>

text \<open>
  \<open>querySelector\<close> is the browser's selector lookup on the current document:
  \<open>Inl SyntaxError\<close> for a string that is not a selector (such as \<^verbatim>\<open>#\<close> alone),
  \<open>Inr None\<close> when nothing matches. \<open>navLinkEls\<close> are the elements matching
  \<^verbatim>\<open>.nav-links a\<close>, \<open>scrolledTo\<close> the targets of the \<^verbatim>\<open>scrollIntoView\<close> calls
  made so far.
\<close>

record nav_page =
  querySelector :: "string \<Rightarrow> js_error + elem option"
  elemClasses :: "elem \<Rightarrow> string list"
  navLinkEls :: "elem list"
  scrolledTo :: "elem list"
  clickPrevented :: bool

record anchor_el =
  anchorElem :: elem
  anchorHref :: string

definition remove_active :: "elem list \<Rightarrow> (elem \<Rightarrow> string list) \<Rightarrow> (elem \<Rightarrow> string list)" where
  "remove_active links d = foldl (\<lambda>d' l. d'(l := classList_remove ''active'' (d' l))) d links"

definition anchor_click :: "anchor_el \<Rightarrow> nav_page \<Rightarrow> nav_page completion" where
  "anchor_click this p =
     (let p1 = p\<lparr>clickPrevented := True\<rparr>
      in case querySelector p1 (anchorHref this) of
           Inl e \<Rightarrow> Throw e p1
         | Inr None \<Rightarrow> Normal p1
         | Inr (Some tgt) \<Rightarrow>
             (let p2 = p1\<lparr>scrolledTo := scrolledTo p1 @ [tgt]\<rparr>;
                  d = remove_active (navLinkEls p2) (elemClasses p2)
              in Normal (p2\<lparr>elemClasses :=
                   d(anchorElem this := classList_add ''active'' (d (anchorElem this)))\<rparr>)))"

section \<open>Navbar background on scroll (main.js, lines 157--169)\<close>

text \<open>
  \<open>navbarBackground\<close> is \<^verbatim>\<open>style.background\<close> of the element matching
  \<^verbatim>\<open>.navbar\<close> (\<open>None\<close> when the document has no such element), \<open>rootTheme\<close> the
  \<^verbatim>\<open>data-theme\<close> attribute of the root element. Offsets are numbers; the handler
  only compares them, so they are modelled as reals.
\<close>

record navbar_page =
  navbarBackground :: "string option"
  scrollY :: real
  rootTheme :: "string option"

definition navbar_set_background :: "string \<Rightarrow> navbar_page \<Rightarrow> navbar_page completion" where
  "navbar_set_background b p =
     (case navbarBackground p of
        None \<Rightarrow> Throw TypeError p
      | Some old \<Rightarrow> Normal (p\<lparr>navbarBackground := Some b\<rparr>))"

definition navbar_onScroll :: "navbar_page \<Rightarrow> navbar_page completion" where
  "navbar_onScroll p =
     (if scrollY p > 50
      then navbar_set_background
             (if rootTheme p = Some ''dark''
              then ''rgba(17, 24, 39, 0.98)''
              else ''rgba(255, 255, 255, 0.98)'') p
      else navbar_set_background
             (if rootTheme p = Some ''dark''
              then ''rgba(17, 24, 39, 0.95)''
              else ''rgba(255, 255, 255, 0.95)'') p)"

section \<open>Active navigation link highlighting (main.js, lines 171--191)\<close>

text \<open>
  \<open>current\<close> starts as the empty string and is overwritten by the \<^verbatim>\<open>id\<close> attribute
  of every section that passes the test, \<^verbatim>\<open>null\<close> (\<open>None\<close>) for a section without
  one. The template literal turns \<^verbatim>\<open>null\<close> into the text \<^verbatim>\<open>null\<close>.
\<close>

record section_el =
  offsetTop :: real
  sectionId :: "string option"

record link_el =
  linkHref :: "string option"
  linkClasses :: "string list"

definition scan_section :: "real \<Rightarrow> string option \<Rightarrow> section_el \<Rightarrow> string option" where
  "scan_section pageYOffset current sec =
     (if pageYOffset \<ge> offsetTop sec - 200 then sectionId sec else current)"

definition current_section :: "real \<Rightarrow> section_el list \<Rightarrow> string option" where
  "current_section pageYOffset sections = foldl (scan_section pageYOffset) (Some []) sections"

fun hash_template :: "string option \<Rightarrow> string" where
  "hash_template None = ''#null''"
| "hash_template (Some c) = ''#'' @ c"

definition highlight_link :: "string option \<Rightarrow> link_el \<Rightarrow> link_el" where
  "highlight_link current link =
     (let l1 = link\<lparr>linkClasses := classList_remove ''active'' (linkClasses link)\<rparr>
      in if linkHref l1 = Some (hash_template current)
         then l1\<lparr>linkClasses := classList_add ''active'' (linkClasses l1)\<rparr>
         else l1)"

definition highlight_onScroll :: "real \<Rightarrow> section_el list \<Rightarrow> link_el list \<Rightarrow> link_el list" where
  "highlight_onScroll pageYOffset sections links =
     map (highlight_link (current_section pageYOffset sections)) links"

text \<open>
  The specification's wording of the active section, for comparison with
  \<open>current_section\<close>: the last section in document order whose top offset minus 200
  is at most the scroll offset.
\<close>

definition spec_active_section :: "real \<Rightarrow> section_el list \<Rightarrow> section_el option" where
  "spec_active_section y sections =
     (case filter (\<lambda>sec. offsetTop sec - 200 \<le> y) sections of
        [] \<Rightarrow> None
      | x # xs \<Rightarrow> Some (last (x # xs)))"

definition is_active :: "link_el \<Rightarrow> bool" where
  "is_active link = (''active'' \<in> set (linkClasses link))"

section \<open>Invariant and example pages of the theme manager\<close>

text \<open>
  What every completed \<open>setTheme\<close> call with a non-empty theme establishes: both
  controls exist, and the attribute and the stored entry mirror \<open>currentTheme\<close>.
\<close>

definition synced :: "theme_state \<Rightarrow> bool" where
  "synced s =
     (themeToggle s \<noteq> None \<and> themeIcon s \<noteq> None \<and> currentTheme s \<noteq> [] \<and>
      dataTheme s = Some (currentTheme s) \<and>
      localStorage s ''theme'' = Some (currentTheme s))"

text \<open>
  A first visit: both controls in the markup, nothing stored, the system preference
  reporting dark.
\<close>

definition page_first_visit :: theme_state where
  "page_first_visit =
     \<lparr>themeToggle = Some \<lparr>ariaLabel = Some ''Toggle dark mode'', styleTransform = []\<rparr>,
      themeIcon = Some \<lparr>className = ''fas fa-moon''\<rparr>,
      currentTheme = [],
      dataTheme = None,
      localStorage = Map.empty,
      prefersDark = True,
      clickListener = False,
      changeListener = False,
      timeouts = []\<rparr>"

text \<open>The same document without the element \<^verbatim>\<open>#themeToggle\<close>.\<close>

definition page_without_toggle :: theme_state where
  "page_without_toggle = page_first_visit\<lparr>themeToggle := None\<rparr>"

section \<open>Example inputs of the other handlers\<close>

text \<open>
  The specification's reading of the navbar background: the colour follows the theme,
  the opacity is the higher one above the threshold.
\<close>

definition spec_navbar_background :: "bool \<Rightarrow> bool \<Rightarrow> string" where
  "spec_navbar_background over dark =
     (if dark then ''rgba(17, 24, 39, '' else ''rgba(255, 255, 255, '')
       @ (if over then ''0.98'' else ''0.95'') @ '')''"

definition navbar_dark_top :: navbar_page where
  "navbar_dark_top =
     \<lparr>navbarBackground = Some [], scrollY = 0, rootTheme = Some ''dark''\<rparr>"

definition navbar_light_scrolled :: navbar_page where
  "navbar_light_scrolled =
     \<lparr>navbarBackground = Some [], scrollY = 120, rootTheme = Some ''light''\<rparr>"

text \<open>
  A page whose only section starts 500px down (a tall header above it), with one
  navigation link to it.
\<close>

definition sections_below_header :: "section_el list" where
  "sections_below_header = [\<lparr>offsetTop = 500, sectionId = Some ''about''\<rparr>]"

definition links_below_header :: "link_el list" where
  "links_below_header = [\<lparr>linkHref = Some ''#about'', linkClasses = []\<rparr>]"

text \<open>Three sections with one link each, the first link marked active.\<close>

definition sections_three :: "section_el list" where
  "sections_three =
     [\<lparr>offsetTop = 0, sectionId = Some ''home''\<rparr>,
      \<lparr>offsetTop = 600, sectionId = Some ''about''\<rparr>,
      \<lparr>offsetTop = 1400, sectionId = Some ''contact''\<rparr>]"

definition links_three :: "link_el list" where
  "links_three =
     [\<lparr>linkHref = Some ''#home'', linkClasses = [''active'']\<rparr>,
      \<lparr>linkHref = Some ''#about'', linkClasses = []\<rparr>,
      \<lparr>linkHref = Some ''#contact'', linkClasses = []\<rparr>]"

text \<open>A batch that reveals element 1 and a later batch that reports it gone.\<close>

definition batch_enter :: "io_entry list" where
  "batch_enter = [\<lparr>target = 1, isIntersecting = True\<rparr>, \<lparr>target = 2, isIntersecting = False\<rparr>]"

definition batch_leave :: "io_entry list" where
  "batch_leave = [\<lparr>target = 1, isIntersecting = False\<rparr>]"

text \<open>A contact form with the email left empty.\<close>

definition form_no_email :: form_page where
  "form_no_email =
     \<lparr>fieldValues = [''name'' \<mapsto> ''Ada'', ''email'' \<mapsto> [], ''message'' \<mapsto> ''Hello''],
      fieldDefaults = [''name'' \<mapsto> [], ''email'' \<mapsto> [], ''message'' \<mapsto> []],
      alerts = [],
      submitPrevented = False\<rparr>"

text \<open>
  A document in which only \<^verbatim>\<open>#about\<close> resolves (to element 7) and \<^verbatim>\<open>#\<close> alone
  is not a selector; elements 3 and 4 are the navigation links, 3 being active.
\<close>

definition nav_page_example :: nav_page where
  "nav_page_example =
     \<lparr>querySelector = (\<lambda>sel. if sel = ''#about'' then Inr (Some 7)
                           else if sel = ''#'' then Inl SyntaxError else Inr None),
      elemClasses = (\<lambda>el. if el = 3 then [''active''] else []),
      navLinkEls = [3, 4],
      scrolledTo = [],
      clickPrevented = False\<rparr>"

section \<open>Properties of the theme manager\<close>

lemma andThen_Normal:
  "andThen c f = Normal s' \<Longrightarrow> \<exists>s1. c = Normal s1 \<and> f s1 = Normal s'"
  by (cases c) auto

lemma is_Normal_collapse: "is_Normal c \<Longrightarrow> c = Normal (state_of c)"
  by (cases c) auto

lemma js_or_nonempty: "d \<noteq> [] \<Longrightarrow> js_or v d \<noteq> []"
  by (cases v) auto

lemma setTheme_Normal_iff:
  "is_Normal (setTheme t s) = (themeToggle s \<noteq> None \<and> themeIcon s \<noteq> None)"
  by (auto simp: setTheme_def icon_set_className_def toggle_set_ariaLabel_def
      split: option.splits)

lemma setTheme_Normal:
  assumes "setTheme t s = Normal s'"
  shows "currentTheme s' = t" "dataTheme s' = Some t" "localStorage s' ''theme'' = Some t"
    "themeToggle s' \<noteq> None" "themeIcon s' \<noteq> None"
    "clickListener s' = clickListener s" "changeListener s' = changeListener s"
    "timeouts s' = timeouts s" "prefersDark s' = prefersDark s"
  using assms
  by (auto simp: setTheme_def icon_set_className_def toggle_set_ariaLabel_def
      split: option.splits if_splits)

lemma setTheme_synced: "setTheme t s = Normal s' \<Longrightarrow> t \<noteq> [] \<Longrightarrow> synced s'"
  by (simp add: synced_def setTheme_Normal)

lemma init_Normal:
  assumes "init s = Normal s'"
  shows "\<exists>s1. setTheme (currentTheme s) s = Normal s1 \<and>
    s' = s1\<lparr>clickListener := True, changeListener := True\<rparr>"
proof -
  from assms obtain s2
    where a: "andThen (setTheme (currentTheme s) s) toggle_addClickListener = Normal s2"
      and b: "s' = s2\<lparr>changeListener := True\<rparr>"
    unfolding init_def by (auto dest!: andThen_Normal)
  from a obtain s1 where c: "setTheme (currentTheme s) s = Normal s1"
    and d: "toggle_addClickListener s1 = Normal s2"
    by (auto dest!: andThen_Normal)
  from d have "s2 = s1\<lparr>clickListener := True\<rparr>"
    by (auto simp: toggle_addClickListener_def split: option.splits)
  with b c show ?thesis by simp
qed

lemma new_Normal:
  assumes "ThemeManager_new s = Normal s'"
  shows "\<exists>s1. setTheme (js_or (localStorage s ''theme'') ''light'')
            (s\<lparr>currentTheme := js_or (localStorage s ''theme'') ''light''\<rparr>) = Normal s1 \<and>
    s' = s1\<lparr>clickListener := True, changeListener := True\<rparr>"
  using assms unfolding ThemeManager_new_def by (auto dest!: init_Normal)

lemma new_synced:
  assumes "ThemeManager_new s = Normal s'"
  shows "synced s' \<and> clickListener s' \<and> changeListener s'"
proof -
  let ?t = "js_or (localStorage s ''theme'') ''light''"
  from new_Normal[OF assms] obtain s1
    where a: "setTheme ?t (s\<lparr>currentTheme := ?t\<rparr>) = Normal s1"
      and b: "s' = s1\<lparr>clickListener := True, changeListener := True\<rparr>"
    by blast
  have "?t \<noteq> []" by (simp add: js_or_nonempty)
  with a have "synced s1" by (rule setTheme_synced)
  with b show ?thesis by (simp add: synced_def)
qed

lemma new_Normal_iff:
  "is_Normal (ThemeManager_new s) = (themeToggle s \<noteq> None \<and> themeIcon s \<noteq> None)"
  by (auto simp: ThemeManager_new_def init_def setTheme_def icon_set_className_def
      toggle_set_ariaLabel_def toggle_addClickListener_def split: option.splits)

lemma toggleTheme_synced:
  assumes "synced s"
  shows "\<exists>s'. toggleTheme s = Normal s' \<and> synced s' \<and>
     currentTheme s' = (if currentTheme s = ''light'' then ''dark'' else ''light'') \<and>
     clickListener s' = clickListener s \<and> changeListener s' = changeListener s"
proof -
  let ?t = "if currentTheme s = ''light'' then ''dark'' else ''light''"
  from assms have "is_Normal (setTheme ?t s)"
    by (simp add: setTheme_Normal_iff synced_def)
  then obtain s1 where a: "setTheme ?t s = Normal s1"
    by (cases "setTheme ?t s") auto
  have t: "?t \<noteq> []" by simp
  from a t have s1: "synced s1" by (rule setTheme_synced)
  then obtain tg where tg: "themeToggle s1 = Some tg" by (auto simp: synced_def)
  let ?s' = "s1\<lparr>themeToggle := Some (tg\<lparr>styleTransform := ''rotate(360deg)''\<rparr>),
    timeouts := timeouts s1 @ [300]\<rparr>"
  have "toggleTheme s = Normal ?s'"
    using a tg by (simp add: toggleTheme_def toggle_set_transform_def Let_def)
  moreover have "synced ?s'" using s1 by (simp add: synced_def)
  moreover have "currentTheme ?s' = ?t" using setTheme_Normal(1)[OF a] by simp
  moreover have "clickListener ?s' = clickListener s" "changeListener ?s' = changeListener s"
    using setTheme_Normal(6,7)[OF a] by simp_all
  ultimately show ?thesis by blast
qed

lemma onSystemThemeChange_synced: "synced s \<Longrightarrow> onSystemThemeChange m s = Normal s"
  by (simp add: onSystemThemeChange_def synced_def)

lemma dispatch_synced:
  assumes "synced s"
  shows "synced (state_of (dispatch e s)) \<and>
    clickListener (state_of (dispatch e s)) = clickListener s \<and>
    changeListener (state_of (dispatch e s)) = changeListener s"
proof (cases e)
  case ToggleClick
  from toggleTheme_synced[OF assms] obtain s' where "toggleTheme s = Normal s'" "synced s'"
    "clickListener s' = clickListener s" "changeListener s' = changeListener s" by blast
  with ToggleClick assms show ?thesis by simp
next
  case (SystemThemeChange m)
  from assms have "synced (s\<lparr>prefersDark := m\<rparr>)" by (simp add: synced_def)
  then show ?thesis using SystemThemeChange
    by (simp add: onSystemThemeChange_synced)
next
  case TimeoutFires
  from assms show ?thesis using TimeoutFires
    by (auto simp: synced_def toggle_set_transform_def split: list.splits option.splits)
qed

lemma run_synced: "synced s \<Longrightarrow> synced (run evs s)"
  by (induction evs arbitrary: s) (simp_all add: dispatch_synced)

lemma run_listeners:
  "synced s \<Longrightarrow> clickListener (run evs s) = clickListener s \<and>
     changeListener (run evs s) = changeListener s"
  by (induction evs arbitrary: s) (simp_all add: dispatch_synced)

lemma dispatch_keeps_theme:
  assumes "synced s" "e \<noteq> ToggleClick"
  shows "currentTheme (state_of (dispatch e s)) = currentTheme s"
proof (cases e)
  case ToggleClick
  with assms show ?thesis by simp
next
  case (SystemThemeChange m)
  from assms have "synced (s\<lparr>prefersDark := m\<rparr>)" by (simp add: synced_def)
  then show ?thesis using SystemThemeChange
    by (simp add: onSystemThemeChange_synced)
next
  case TimeoutFires
  from assms show ?thesis using TimeoutFires
    by (auto simp: synced_def toggle_set_transform_def split: list.splits option.splits)
qed

lemma run_keeps_theme:
  "synced s \<Longrightarrow> ToggleClick \<notin> set evs \<Longrightarrow> currentTheme (run evs s) = currentTheme s"
proof (induction evs arbitrary: s)
  case Nil
  then show ?case by simp
next
  case (Cons e evs)
  from Cons.prems have e: "e \<noteq> ToggleClick" and rest: "ToggleClick \<notin> set evs" by auto
  from Cons.prems(1) have "synced (state_of (dispatch e s))" by (simp add: dispatch_synced)
  from Cons.IH[OF this rest] dispatch_keeps_theme[OF Cons.prems(1) e]
  show ?case by simp
qed

lemma page_first_visit_new:
  "ThemeManager_new page_first_visit =
     Normal (page_first_visit
       \<lparr>themeToggle := Some \<lparr>ariaLabel = Some ''Switch to dark mode'', styleTransform = []\<rparr>,
        currentTheme := ''light'', dataTheme := Some ''light'',
        localStorage := [''theme'' \<mapsto> ''light''],
        clickListener := True, changeListener := True\<rparr>)"
  by (simp add: ThemeManager_new_def init_def setTheme_def icon_set_className_def
      toggle_set_ariaLabel_def toggle_addClickListener_def page_first_visit_def)

section \<open>Claims about the theme manager\<close>

text \<open>
  C1, as the specification states it: with no stored \<^verbatim>\<open>theme\<close> entry and the system
  preference reporting dark, initialization sets \<^verbatim>\<open>data-theme\<close> to dark and leaves
  the storage without an entry. On the first-visit page the constructor does neither:
  the attribute becomes light and the entry \<^verbatim>\<open>theme = light\<close> is stored.
\<close>

theorem init_system_dark_counterexample:
  "localStorage page_first_visit ''theme'' = None \<and> prefersDark page_first_visit \<and>
   is_Normal (ThemeManager_new page_first_visit) \<and>
   dataTheme (state_of (ThemeManager_new page_first_visit)) = Some ''light'' \<and>
   dataTheme (state_of (ThemeManager_new page_first_visit)) \<noteq> Some ''dark'' \<and>
   localStorage (state_of (ThemeManager_new page_first_visit)) ''theme'' = Some ''light'' \<and>
   localStorage (state_of (ThemeManager_new page_first_visit)) ''theme'' \<noteq> None"
  by (simp add: page_first_visit_new) (simp add: page_first_visit_def)

text \<open>
  C1, amended: for every initial state in which local storage has no \<^verbatim>\<open>theme\<close>
  entry and both controls exist, whatever the system preference reports, construction
  and init complete and set \<^verbatim>\<open>data-theme\<close> to light, the constructor's default;
  the system preference is not read during initialization.
\<close>

theorem init_without_entry_defaults_to_light:
  assumes "localStorage s ''theme'' = None"
    and "themeToggle s \<noteq> None" and "themeIcon s \<noteq> None"
  shows "is_Normal (ThemeManager_new s) \<and>
    dataTheme (state_of (ThemeManager_new s)) = Some ''light'' \<and>
    currentTheme (state_of (ThemeManager_new s)) = ''light''"
proof -
  from assms(2,3) have n: "is_Normal (ThemeManager_new s)"
    by (simp add: new_Normal_iff)
  then have eq: "ThemeManager_new s = Normal (state_of (ThemeManager_new s))"
    by (rule is_Normal_collapse)
  from assms(1) have t: "js_or (localStorage s ''theme'') ''light'' = ''light''"
    by simp
  from new_Normal[OF eq] t obtain s1
    where a: "setTheme ''light'' (s\<lparr>currentTheme := ''light''\<rparr>) = Normal s1"
      and b: "state_of (ThemeManager_new s) = s1\<lparr>clickListener := True, changeListener := True\<rparr>"
    by auto
  from setTheme_Normal(1,2)[OF a] b n show ?thesis by simp
qed

theorem init_without_entry_defaults_to_light_witness:
  "localStorage page_first_visit ''theme'' = None \<and>
   themeToggle page_first_visit \<noteq> None \<and> themeIcon page_first_visit \<noteq> None \<and>
   prefersDark page_first_visit \<and>
   is_Normal (ThemeManager_new page_first_visit) \<and>
   dataTheme (state_of (ThemeManager_new page_first_visit)) = Some ''light'' \<and>
   currentTheme (state_of (ThemeManager_new page_first_visit)) = ''light''"
proof -
  have h1: "localStorage page_first_visit ''theme'' = None"
    by (simp add: page_first_visit_def)
  have h2: "themeToggle page_first_visit \<noteq> None"
    by (simp add: page_first_visit_def)
  have h3: "themeIcon page_first_visit \<noteq> None"
    by (simp add: page_first_visit_def)
  have h4: "prefersDark page_first_visit"
    by (simp add: page_first_visit_def)
  from init_without_entry_defaults_to_light[OF h1 h2 h3] h1 h2 h3 h4
  show ?thesis by simp
qed

text \<open>
  C3: on a document without the toggle control, initialization is claimed not to fail.
  The constructor evaluated on such a document: \<open>setTheme\<close> has already written the
  attribute and the icon when \<^verbatim>\<open>this.themeToggle.setAttribute\<close> raises a TypeError;
  the entry is not stored and neither listener is registered.
\<close>

theorem init_without_toggle_throws:
  "themeToggle page_without_toggle = None \<and>
   \<not> is_Normal (ThemeManager_new page_without_toggle) \<and>
   thrown (ThemeManager_new page_without_toggle) = TypeError \<and>
   dataTheme (state_of (ThemeManager_new page_without_toggle)) = Some ''light'' \<and>
   localStorage (state_of (ThemeManager_new page_without_toggle)) ''theme'' = None \<and>
   \<not> clickListener (state_of (ThemeManager_new page_without_toggle)) \<and>
   \<not> changeListener (state_of (ThemeManager_new page_without_toggle))"
  by (simp add: ThemeManager_new_def init_def setTheme_def icon_set_className_def
      toggle_set_ariaLabel_def toggle_addClickListener_def page_without_toggle_def
      page_first_visit_def)

text \<open>
  C4: on an initialized page (reached from a completed construction by any events), an
  explicit toggle flips \<open>currentTheme\<close>, mirrors it in \<^verbatim>\<open>data-theme\<close> and stores it;
  after that, every run of system-preference notifications and timeouts leaves
  \<open>currentTheme\<close>, \<^verbatim>\<open>data-theme\<close> and the stored entry at the toggled value, each
  notification returning the state as it found it. Before the toggle as after it the
  storage holds a \<^verbatim>\<open>theme\<close> entry and the notification changes nothing; in any state
  whatever the handler changes nothing while a stored choice is there, so it applies a
  preference only when there is none.
\<close>

theorem explicit_toggle_overrides_system:
  assumes "is_Normal (ThemeManager_new s0)" and "ToggleClick \<notin> set later"
  shows "(let s = run evs (state_of (ThemeManager_new s0));
              chosen = state_of (dispatch ToggleClick s);
              s' = run later chosen
          in currentTheme chosen = (if currentTheme s = ''light'' then ''dark'' else ''light'') \<and>
             dataTheme chosen = Some (currentTheme chosen) \<and>
             localStorage chosen ''theme'' = Some (currentTheme chosen) \<and>
             currentTheme s' = currentTheme chosen \<and>
             dataTheme s' = dataTheme chosen \<and>
             localStorage s' ''theme'' = localStorage chosen ''theme'' \<and>
             (\<forall>m. onSystemThemeChange m s' = Normal s') \<and>
             (\<forall>m. dispatch (SystemThemeChange m) s' = Normal (s'\<lparr>prefersDark := m\<rparr>)) \<and>
             localStorage s ''theme'' = Some (currentTheme s) \<and>
             (\<forall>m. onSystemThemeChange m s = Normal s)) \<and>
    (\<forall>t :: theme_state. \<forall>m. truthy (localStorage t ''theme'') \<longrightarrow>
       onSystemThemeChange m t = Normal t)"
proof -
  define s where "s = run evs (state_of (ThemeManager_new s0))"
  define chosen where "chosen = state_of (dispatch ToggleClick s)"
  define s' where "s' = run later chosen"
  from assms(1) have "ThemeManager_new s0 = Normal (state_of (ThemeManager_new s0))"
    by (rule is_Normal_collapse)
  then have s1: "synced (state_of (ThemeManager_new s0))"
    and cl: "clickListener (state_of (ThemeManager_new s0))"
    using new_synced by blast+
  from s1 have s: "synced s" unfolding s_def by (rule run_synced)
  from run_listeners[OF s1, of evs] cl have cls: "clickListener s" by (simp add: s_def)
  from toggleTheme_synced[OF s] obtain t where t: "toggleTheme s = Normal t" "synced t"
    "currentTheme t = (if currentTheme s = ''light'' then ''dark'' else ''light'')"
    by blast
  from s cls t(1) have ch: "chosen = t" by (simp add: chosen_def synced_def)
  from t(2) ch have c: "synced chosen" by simp
  have k: "currentTheme s' = currentTheme chosen"
    unfolding s'_def using c assms(2) by (rule run_keeps_theme)
  have e: "synced s'" unfolding s'_def using c by (rule run_synced)
  have n: "onSystemThemeChange m s' = Normal s'" for m
    using e by (rule onSystemThemeChange_synced)
  have d: "dispatch (SystemThemeChange m) s' = Normal (s'\<lparr>prefersDark := m\<rparr>)" for m
  proof -
    from e have "synced (s'\<lparr>prefersDark := m\<rparr>)" by (simp add: synced_def)
    then show ?thesis by (simp add: onSystemThemeChange_synced)
  qed
  have b: "onSystemThemeChange m s = Normal s" for m
    using s by (rule onSystemThemeChange_synced)
  have g: "truthy (localStorage u ''theme'') \<longrightarrow> onSystemThemeChange m u = Normal u"
    for u :: theme_state and m
    by (simp add: onSystemThemeChange_def)
  have first: "currentTheme chosen = (if currentTheme s = ''light'' then ''dark'' else ''light'') \<and>
      dataTheme chosen = Some (currentTheme chosen) \<and>
      localStorage chosen ''theme'' = Some (currentTheme chosen) \<and>
      currentTheme s' = currentTheme chosen \<and>
      dataTheme s' = dataTheme chosen \<and>
      localStorage s' ''theme'' = localStorage chosen ''theme'' \<and>
      localStorage s ''theme'' = Some (currentTheme s)"
    using c e k s t(3) ch by (simp add: synced_def)
  with n d b g show ?thesis
    unfolding Let_def s_def[symmetric] chosen_def[symmetric] s'_def[symmetric]
    by blast
qed

text \<open>
  C5: in every state of an initialized page (reached from a completed construction by
  any events) whose \<open>currentTheme\<close> is light or dark, two successive calls of
  \<open>toggleTheme\<close> both return and bring \<open>currentTheme\<close> and the \<^verbatim>\<open>data-theme\<close>
  attribute back to their values before the first call.
\<close>

theorem toggleTheme_twice:
  assumes "is_Normal (ThemeManager_new s0)"
    and "s = run evs (state_of (ThemeManager_new s0))"
    and "currentTheme s = ''light'' \<or> currentTheme s = ''dark''"
  shows "is_Normal (toggleTheme s) \<and>
    is_Normal (toggleTheme (state_of (toggleTheme s))) \<and>
    currentTheme (state_of (toggleTheme (state_of (toggleTheme s)))) = currentTheme s \<and>
    dataTheme (state_of (toggleTheme (state_of (toggleTheme s)))) = dataTheme s"
proof -
  from assms(1) have "ThemeManager_new s0 = Normal (state_of (ThemeManager_new s0))"
    by (rule is_Normal_collapse)
  then have "synced (state_of (ThemeManager_new s0))"
    using new_synced by blast
  then have s: "synced s" unfolding assms(2) by (rule run_synced)
  from toggleTheme_synced[OF s] obtain t where t: "toggleTheme s = Normal t" "synced t"
    "currentTheme t = (if currentTheme s = ''light'' then ''dark'' else ''light'')"
    by blast
  from toggleTheme_synced[OF t(2)] obtain u where u: "toggleTheme t = Normal u" "synced u"
    "currentTheme u = (if currentTheme t = ''light'' then ''dark'' else ''light'')"
    by blast
  from t(3) u(3) assms(3) have same: "currentTheme u = currentTheme s" by auto
  from s u(2) same have "dataTheme u = dataTheme s" by (simp add: synced_def)
  with t(1) u(1) same show ?thesis by simp
qed

theorem toggleTheme_twice_witness:
  "is_Normal (ThemeManager_new page_first_visit) \<and>
   currentTheme (run [SystemThemeChange False] (state_of (ThemeManager_new page_first_visit)))
     = ''light'' \<and>
   dataTheme (state_of (toggleTheme (state_of (toggleTheme
     (run [SystemThemeChange False] (state_of (ThemeManager_new page_first_visit)))))))
     = Some ''light''"
proof -
  let ?s = "run [SystemThemeChange False] (state_of (ThemeManager_new page_first_visit))"
  have h1: "is_Normal (ThemeManager_new page_first_visit)"
    by (simp add: page_first_visit_new)
  have st: "?s = (state_of (ThemeManager_new page_first_visit))\<lparr>prefersDark := False\<rparr>"
    by (simp add: page_first_visit_new onSystemThemeChange_def)
  have h3: "currentTheme ?s = ''light''" and d: "dataTheme ?s = Some ''light''"
    unfolding st by (simp_all add: page_first_visit_new)
  from h3 have h3': "currentTheme ?s = ''light'' \<or> currentTheme ?s = ''dark''" ..
  from toggleTheme_twice[OF h1 refl h3'] h1 h3 d show ?thesis by simp
qed

text \<open>
  On a page with both controls every call of \<open>setTheme\<close> returns and has stored its
  argument under \<^verbatim>\<open>theme\<close>, the call made by \<open>init\<close> included; whenever construction
  completes, in every later state the storage holds a \<^verbatim>\<open>theme\<close> entry equal to
  \<open>currentTheme\<close> and the \<^verbatim>\<open>data-theme\<close> attribute equals the stored value.
\<close>

lemma setTheme_persists_with_controls:
  "(\<forall>theme s. themeToggle s \<noteq> None \<and> themeIcon s \<noteq> None \<longrightarrow>
      is_Normal (setTheme theme s) \<and>
      localStorage (state_of (setTheme theme s)) ''theme'' = Some theme) \<and>
   (\<forall>s0. is_Normal (ThemeManager_new s0) \<longrightarrow>
      localStorage (state_of (ThemeManager_new s0)) ''theme''
        = Some (js_or (localStorage s0 ''theme'') ''light'')) \<and>
   (\<forall>s0 evs. is_Normal (ThemeManager_new s0) \<longrightarrow>
      (let s = run evs (state_of (ThemeManager_new s0))
       in localStorage s ''theme'' = Some (currentTheme s) \<and>
          dataTheme s = localStorage s ''theme''))"
proof (intro conjI allI impI)
  fix theme and s :: theme_state
  assume "themeToggle s \<noteq> None \<and> themeIcon s \<noteq> None"
  then have n: "is_Normal (setTheme theme s)" by (simp add: setTheme_Normal_iff)
  then have "setTheme theme s = Normal (state_of (setTheme theme s))"
    by (rule is_Normal_collapse)
  from n setTheme_Normal(3)[OF this]
  show "is_Normal (setTheme theme s)"
    "localStorage (state_of (setTheme theme s)) ''theme'' = Some theme"
    by simp_all
next
  fix s0
  assume "is_Normal (ThemeManager_new s0)"
  then have eq: "ThemeManager_new s0 = Normal (state_of (ThemeManager_new s0))"
    by (rule is_Normal_collapse)
  let ?t = "js_or (localStorage s0 ''theme'') ''light''"
  from new_Normal[OF eq] obtain s1
    where a: "setTheme ?t (s0\<lparr>currentTheme := ?t\<rparr>) = Normal s1"
      and b: "state_of (ThemeManager_new s0) = s1\<lparr>clickListener := True, changeListener := True\<rparr>"
    by blast
  from setTheme_Normal(3)[OF a] b
  show "localStorage (state_of (ThemeManager_new s0)) ''theme'' = Some ?t" by simp
next
  fix s0 evs
  assume "is_Normal (ThemeManager_new s0)"
  then have "ThemeManager_new s0 = Normal (state_of (ThemeManager_new s0))"
    by (rule is_Normal_collapse)
  then have "synced (state_of (ThemeManager_new s0))"
    using new_synced by blast
  then have "synced (run evs (state_of (ThemeManager_new s0)))" by (rule run_synced)
  then show "let s = run evs (state_of (ThemeManager_new s0))
       in localStorage s ''theme'' = Some (currentTheme s) \<and>
          dataTheme s = localStorage s ''theme''"
    by (simp add: synced_def Let_def)
qed

text \<open>
  C10 has every call of \<open>setTheme\<close> store the \<^verbatim>\<open>theme\<close> entry, the call made during
  initialization included. The call that the constructor makes on the document without
  the toggle control, \<open>setTheme\<close> of the default light: the attribute and the icon are
  written, \<^verbatim>\<open>this.themeToggle.setAttribute\<close> raises a TypeError, and the statement
  that stores the entry is not reached. The storage is as empty after the call as before.
\<close>

theorem setTheme_without_toggle_stores_nothing:
  "js_or (localStorage page_without_toggle ''theme'') ''light'' = ''light'' \<and>
   setTheme ''light'' (page_without_toggle\<lparr>currentTheme := ''light''\<rparr>) =
     Throw TypeError (page_without_toggle\<lparr>currentTheme := ''light'',
       dataTheme := Some ''light''\<rparr>) \<and>
   localStorage (state_of (setTheme ''light'' (page_without_toggle\<lparr>currentTheme := ''light''\<rparr>)))
     ''theme'' = None"
  by (simp add: setTheme_def icon_set_className_def toggle_set_ariaLabel_def
      page_without_toggle_def page_first_visit_def)

text \<open>
  The statement of C4 at a concrete page: after construction and a click the page is
  dark, a notification that the system turned light and the expiry of the timeout change
  nothing, and the stored choice blocks a notification on the page as constructed.
\<close>

theorem explicit_toggle_overrides_system_witness:
  "is_Normal (ThemeManager_new page_first_visit) \<and>
   ToggleClick \<notin> set [SystemThemeChange False, TimeoutFires] \<and>
   currentTheme (state_of (dispatch ToggleClick (state_of (ThemeManager_new page_first_visit))))
     = ''dark'' \<and>
   currentTheme (run [SystemThemeChange False, TimeoutFires]
       (state_of (dispatch ToggleClick (state_of (ThemeManager_new page_first_visit)))))
     = ''dark'' \<and>
   dataTheme (run [SystemThemeChange False, TimeoutFires]
       (state_of (dispatch ToggleClick (state_of (ThemeManager_new page_first_visit)))))
     = Some ''dark'' \<and>
   localStorage (run [SystemThemeChange False, TimeoutFires]
       (state_of (dispatch ToggleClick (state_of (ThemeManager_new page_first_visit)))))
     ''theme'' = Some ''dark'' \<and>
   truthy (localStorage (state_of (ThemeManager_new page_first_visit)) ''theme'') \<and>
   onSystemThemeChange True (state_of (ThemeManager_new page_first_visit))
     = Normal (state_of (ThemeManager_new page_first_visit))"
proof -
  let ?s1 = "state_of (ThemeManager_new page_first_visit)"
  have h1: "is_Normal (ThemeManager_new page_first_visit)"
    by (simp add: page_first_visit_new)
  have h2: "ToggleClick \<notin> set [SystemThemeChange False, TimeoutFires]"
    by simp
  have h3: "truthy (localStorage ?s1 ''theme'')"
    by (simp add: page_first_visit_new)
  have cur: "currentTheme ?s1 = ''light''"
    by (simp add: page_first_visit_new)
  note a = explicit_toggle_overrides_system[OF h1 h2, of "[]", THEN conjunct1,
      unfolded Let_def]
  note b = explicit_toggle_overrides_system[OF h1 h2, of "[]", THEN conjunct2,
      rule_format, OF h3, of True]
  from a cur have a': "currentTheme (state_of (dispatch ToggleClick ?s1)) = ''dark''"
    "currentTheme (run [SystemThemeChange False, TimeoutFires]
       (state_of (dispatch ToggleClick ?s1))) = ''dark''"
    "dataTheme (run [SystemThemeChange False, TimeoutFires]
       (state_of (dispatch ToggleClick ?s1))) = Some ''dark''"
    "localStorage (run [SystemThemeChange False, TimeoutFires]
       (state_of (dispatch ToggleClick ?s1))) ''theme'' = Some ''dark''"
    by simp_all
  from h1 h2 h3 a' b show ?thesis by blast
qed

section \<open>Claims about the scroll, reveal, form and anchor handlers\<close>

lemma classList_add_member: "c \<in> set (classList_add c cl)"
  by (simp add: classList_add_def)

lemma reveal_entry_keeps:
  "''fade-in'' \<in> set (d el) \<Longrightarrow> ''fade-in'' \<in> set (reveal_entry d e el)"
  by (simp add: reveal_entry_def classList_add_member)

lemma observer_callback_keeps:
  "''fade-in'' \<in> set (d el) \<Longrightarrow> ''fade-in'' \<in> set (observer_callback entries d el)"
  unfolding observer_callback_def
  by (induction entries arbitrary: d) (simp_all add: reveal_entry_keeps)

lemma observer_callbacks_keeps:
  "''fade-in'' \<in> set (d el) \<Longrightarrow> ''fade-in'' \<in> set (observer_callbacks batches d el)"
  unfolding observer_callbacks_def
  by (induction batches arbitrary: d) (simp_all add: observer_callback_keeps)

lemma observer_callback_reveals:
  "e \<in> set entries \<Longrightarrow> isIntersecting e \<Longrightarrow>
     ''fade-in'' \<in> set (observer_callback entries d (target e))"
proof (induction entries arbitrary: d)
  case Nil
  then show ?case by simp
next
  case (Cons x xs)
  show ?case
  proof (cases "e = x")
    case True
    with Cons.prems have "''fade-in'' \<in> set (reveal_entry d x (target e))"
      by (simp add: reveal_entry_def classList_add_member)
    then have "''fade-in'' \<in> set (observer_callback xs (reveal_entry d x) (target e))"
      by (rule observer_callback_keeps)
    then show ?thesis by (simp add: observer_callback_def)
  next
    case False
    with Cons.prems have "e \<in> set xs" by simp
    from Cons.IH[OF this Cons.prems(2)] show ?thesis
      by (simp add: observer_callback_def)
  qed
qed

text \<open>
  C6: when a callback's batch reports an element intersecting, the element carries
  \<^verbatim>\<open>fade-in\<close> after that callback, and still carries it after any number of later
  callbacks, whatever they report; a callback never removes the class from an element
  that has it.
\<close>

theorem reveal_is_one_way:
  assumes "e \<in> set entries" and "isIntersecting e"
  shows "''fade-in'' \<in> set (observer_callback entries d (target e)) \<and>
    ''fade-in'' \<in> set (observer_callbacks later (observer_callback entries d) (target e))"
proof -
  from assms have "''fade-in'' \<in> set (observer_callback entries d (target e))"
    by (rule observer_callback_reveals)
  then show ?thesis by (simp add: observer_callbacks_keeps)
qed

theorem reveal_is_one_way_witness:
  "\<lparr>target = 1, isIntersecting = True\<rparr> \<in> set batch_enter \<and>
   ''fade-in'' \<in> set (observer_callback batch_enter (\<lambda>el. []) 1) \<and>
   ''fade-in'' \<in> set (observer_callbacks [batch_leave, batch_leave]
      (observer_callback batch_enter (\<lambda>el. [])) 1)"
proof -
  have h1: "\<lparr>target = 1, isIntersecting = True\<rparr> \<in> set batch_enter"
    by (simp add: batch_enter_def)
  have h2: "isIntersecting \<lparr>target = 1, isIntersecting = True\<rparr>" by simp
  from reveal_is_one_way[OF h1 h2, of "\<lambda>el. []" "[batch_leave, batch_leave]"] h1
  show ?thesis by simp
qed

text \<open>
  C7: a submission in which name, email or message is empty (or missing) prevents the
  default action, shows the validation message and does nothing else: the fields and
  their defaults are as before, the form is not reset.
\<close>

theorem submit_with_empty_field:
  assumes "\<not> truthy (fieldValues p ''name'') \<or> \<not> truthy (fieldValues p ''email'')
    \<or> \<not> truthy (fieldValues p ''message'')"
  shows "contactForm_submit p =
      p\<lparr>alerts := alerts p @ [''Please fill in all fields.''], submitPrevented := True\<rparr> \<and>
    fieldValues (contactForm_submit p) = fieldValues p"
  using assms by (auto simp: contactForm_submit_def Let_def)

theorem submit_with_empty_field_witness:
  "fieldValues form_no_email ''email'' = Some [] \<and>
   alerts (contactForm_submit form_no_email) = [''Please fill in all fields.''] \<and>
   fieldValues (contactForm_submit form_no_email) ''name'' = Some ''Ada'' \<and>
   fieldValues (contactForm_submit form_no_email) ''message'' = Some ''Hello''"
proof -
  have e: "fieldValues form_no_email ''email'' = Some []"
    by (simp add: form_no_email_def)
  then have h: "\<not> truthy (fieldValues form_no_email ''name'')
      \<or> \<not> truthy (fieldValues form_no_email ''email'')
      \<or> \<not> truthy (fieldValues form_no_email ''message'')"
    by simp
  have "alerts form_no_email = []" "fieldValues form_no_email ''name'' = Some ''Ada''"
    "fieldValues form_no_email ''message'' = Some ''Hello''"
    by (simp_all add: form_no_email_def)
  with submit_with_empty_field[OF h] e show ?thesis by simp
qed

lemma anchor_click_null_target:
  "querySelector p (anchorHref this) = Inr None \<Longrightarrow>
   anchor_click this p = Normal (p\<lparr>clickPrevented := True\<rparr>)"
  by (simp add: anchor_click_def)

lemma anchor_click_invalid_selector:
  "querySelector p (anchorHref this) = Inl e \<Longrightarrow>
   anchor_click this p = Throw e (p\<lparr>clickPrevented := True\<rparr>)"
  by (simp add: anchor_click_def)

lemma anchor_click_resolved_target:
  "querySelector p (anchorHref this) = Inr (Some tgt) \<Longrightarrow>
   is_Normal (anchor_click this p) \<and>
   scrolledTo (state_of (anchor_click this p)) = scrolledTo p @ [tgt]"
  by (simp add: anchor_click_def Let_def)

text \<open>
  C8 has a click on an anchor whose href resolves to no element do nothing, silently.
  When the lookup returns \<^verbatim>\<open>null\<close> that is what the handler does
  (\<open>anchor_click_null_target\<close>). A click on an anchor with href \<^verbatim>\<open>#\<close>, which the
  handler is registered on like any other href starting with \<^verbatim>\<open>#\<close>, never reaches
  the test of the target: \<^verbatim>\<open>querySelector\<close> raises a SyntaxError, which the handler
  does not catch. Nothing is scrolled and no class changes, but the click ends in an
  error.
\<close>

theorem click_hash_href_throws:
  "querySelector nav_page_example ''#'' = Inl SyntaxError \<and>
   anchor_click \<lparr>anchorElem = 4, anchorHref = ''#''\<rparr> nav_page_example
     = Throw SyntaxError (nav_page_example\<lparr>clickPrevented := True\<rparr>) \<and>
   \<not> is_Normal (anchor_click \<lparr>anchorElem = 4, anchorHref = ''#''\<rparr> nav_page_example) \<and>
   anchor_click \<lparr>anchorElem = 4, anchorHref = ''#skills''\<rparr> nav_page_example
     = Normal (nav_page_example\<lparr>clickPrevented := True\<rparr>)"
  by (simp add: anchor_click_def nav_page_example_def)

lemma spec_navbar_background_inj:
  "(spec_navbar_background a d = spec_navbar_background a' d') = (a = a' \<and> d = d')"
  by (cases a; cases a'; cases d; cases d') (simp_all add: spec_navbar_background_def)

lemma navbar_onScroll_present:
  "navbarBackground p \<noteq> None \<Longrightarrow>
   navbar_onScroll p = Normal (p\<lparr>navbarBackground :=
     Some (spec_navbar_background (scrollY p > 50) (rootTheme p = Some ''dark''))\<rparr>)"
  by (auto simp: navbar_onScroll_def navbar_set_background_def spec_navbar_background_def)

text \<open>
  C9: on a page with a navbar, the scroll handler returns and sets the background to a
  value determined by whether the offset exceeds 50 and whether \<^verbatim>\<open>data-theme\<close> is
  \<^verbatim>\<open>dark\<close>: the dark colour for dark and the light colour otherwise, at opacity 0.98
  above the threshold and 0.95 at or below it. Two pages get the same background exactly
  when they agree on both tests.
\<close>

theorem navbar_background_two_inputs:
  assumes "navbarBackground p \<noteq> None" and "navbarBackground q \<noteq> None"
  shows "navbar_onScroll p = Normal (p\<lparr>navbarBackground :=
      Some (spec_navbar_background (scrollY p > 50) (rootTheme p = Some ''dark''))\<rparr>) \<and>
    (navbarBackground (state_of (navbar_onScroll p))
       = navbarBackground (state_of (navbar_onScroll q))) =
    ((scrollY p > 50) = (scrollY q > 50) \<and>
     (rootTheme p = Some ''dark'') = (rootTheme q = Some ''dark''))"
  using assms
  by (simp add: navbar_onScroll_present spec_navbar_background_inj)

theorem navbar_background_two_inputs_witness:
  "navbarBackground navbar_dark_top \<noteq> None \<and> navbarBackground navbar_light_scrolled \<noteq> None \<and>
   navbarBackground (state_of (navbar_onScroll navbar_dark_top))
     = Some ''rgba(17, 24, 39, 0.95)'' \<and>
   navbarBackground (state_of (navbar_onScroll navbar_light_scrolled))
     = Some ''rgba(255, 255, 255, 0.98)''"
proof -
  have h1: "navbarBackground navbar_dark_top \<noteq> None"
    by (simp add: navbar_dark_top_def)
  have h2: "navbarBackground navbar_light_scrolled \<noteq> None"
    by (simp add: navbar_light_scrolled_def)
  have v: "\<not> scrollY navbar_dark_top > 50" "rootTheme navbar_dark_top = Some ''dark''"
    "scrollY navbar_light_scrolled > 50" "rootTheme navbar_light_scrolled = Some ''light''"
    by (simp_all add: navbar_dark_top_def navbar_light_scrolled_def)
  from navbar_background_two_inputs[OF h1 h2, THEN conjunct1]
    navbar_background_two_inputs[OF h2 h1, THEN conjunct1] v h1 h2
  show ?thesis by (simp add: spec_navbar_background_def)
qed

section \<open>Claims about the active navigation link\<close>

lemma spec_active_section_last:
  "spec_active_section y secs =
     (if filter (\<lambda>sec. offsetTop sec - 200 \<le> y) secs = [] then None
      else Some (last (filter (\<lambda>sec. offsetTop sec - 200 \<le> y) secs)))"
  by (simp add: spec_active_section_def split: list.splits)

lemma spec_active_section_snoc:
  "spec_active_section y (secs @ [sec]) =
     (if offsetTop sec - 200 \<le> y then Some sec else spec_active_section y secs)"
  by (simp add: spec_active_section_last)

lemma current_section_snoc:
  "current_section y (secs @ [sec]) = scan_section y (current_section y secs) sec"
  by (simp add: current_section_def)

text \<open>
  The scan of the handler selects the section the specification describes: the last
  one in document order that passes the test, and the initial empty string when none
  does.
\<close>

lemma current_section_is_last_match:
  "current_section y secs =
     (case spec_active_section y secs of None \<Rightarrow> Some [] | Some sec \<Rightarrow> sectionId sec)"
proof (induction secs rule: rev_induct)
  case Nil
  show ?case by (simp add: current_section_def spec_active_section_def)
next
  case (snoc sec secs)
  then show ?case
    by (simp add: current_section_snoc spec_active_section_snoc scan_section_def)
qed

lemma highlight_link_href: "linkHref (highlight_link cur l) = linkHref l"
  by (simp add: highlight_link_def Let_def)

lemma highlight_link_active:
  "is_active (highlight_link cur l) = (linkHref l = Some (hash_template cur))"
  by (simp add: highlight_link_def Let_def is_active_def classList_add_def
      classList_remove_def)

lemma filter_active_highlight:
  "length (filter is_active (map (highlight_link cur) links)) =
   length (filter (\<lambda>l. linkHref l = Some (hash_template cur)) links)"
  by (induction links) (simp_all add: highlight_link_active)

text \<open>
  C2, as stated, has exactly one active link after every run of the handler. On a page
  whose only section starts 500px down, at scroll offset 0 no section passes the test,
  \<^verbatim>\<open>current\<close> stays the empty string and the one link ends up without the marker.
\<close>

theorem no_active_link_counterexample:
  "filter is_active (highlight_onScroll 0 sections_below_header links_below_header) = [] \<and>
   length (filter is_active (highlight_onScroll 0 sections_below_header links_below_header))
     \<noteq> 1"
  by (simp add: highlight_onScroll_def current_section_def scan_section_def
      highlight_link_def is_active_def classList_remove_def
      sections_below_header_def links_below_header_def)

text \<open>
  C2, amended. After the scroll handler runs, a navigation link carries the active marker
  exactly when its href is \<^verbatim>\<open>#\<close> followed by the id of the last section in document
  order whose top offset minus 200 is at most the scroll offset (\<^verbatim>\<open>#\<close> alone when no
  section qualifies, \<^verbatim>\<open>#null\<close> when that section has no id). The hrefs are unchanged,
  and the number of active links is the number of links with that href: exactly one
  link is active precisely when exactly one link targets that section.
\<close>

theorem active_links_after_scroll:
  "(let cur = (case spec_active_section y secs of
                 None \<Rightarrow> Some [] | Some sec \<Rightarrow> sectionId sec);
        links' = highlight_onScroll y secs links
    in map linkHref links' = map linkHref links \<and>
       (\<forall>l \<in> set links'. is_active l = (linkHref l = Some (hash_template cur))) \<and>
       length (filter is_active links')
         = length (filter (\<lambda>l. linkHref l = Some (hash_template cur)) links))"
proof -
  define cur where "cur = (case spec_active_section y secs of
                 None \<Rightarrow> Some [] | Some sec \<Rightarrow> sectionId sec)"
  have c: "current_section y secs = cur"
    by (simp add: cur_def current_section_is_last_match)
  have h: "highlight_onScroll y secs links = map (highlight_link cur) links"
    by (simp add: highlight_onScroll_def c)
  have 1: "map linkHref (map (highlight_link cur) links) = map linkHref links"
    by (simp add: highlight_link_href)
  have 2: "\<forall>l \<in> set (map (highlight_link cur) links).
      is_active l = (linkHref l = Some (hash_template cur))"
    by (auto simp: highlight_link_active highlight_link_href)
  from 1 2 filter_active_highlight[of cur links] show ?thesis
    unfolding Let_def cur_def[symmetric] h by blast
qed

theorem active_links_after_scroll_witness:
  "spec_active_section 450 sections_three = Some \<lparr>offsetTop = 600, sectionId = Some ''about''\<rparr> \<and>
   map is_active (highlight_onScroll 450 sections_three links_three) = [False, True, False] \<and>
   length (filter is_active (highlight_onScroll 450 sections_three links_three)) = 1"
proof -
  have s: "spec_active_section 450 sections_three
      = Some \<lparr>offsetTop = 600, sectionId = Some ''about''\<rparr>"
    by (simp add: spec_active_section_def sections_three_def)
  have l: "highlight_onScroll 450 sections_three links_three
      = [\<lparr>linkHref = Some ''#home'', linkClasses = []\<rparr>,
         \<lparr>linkHref = Some ''#about'', linkClasses = [''active'']\<rparr>,
         \<lparr>linkHref = Some ''#contact'', linkClasses = []\<rparr>]"
    by (simp add: highlight_onScroll_def current_section_def scan_section_def
        highlight_link_def classList_remove_def classList_add_def
        sections_three_def links_three_def)
  have n: "length (filter (\<lambda>l. linkHref l = Some ''#about'') links_three) = 1"
    by (simp add: links_three_def)
  from active_links_after_scroll[of 450 sections_three links_three, unfolded Let_def s]
  have "length (filter is_active (highlight_onScroll 450 sections_three links_three))
      = length (filter (\<lambda>l. linkHref l = Some ''#about'') links_three)"
    by simp
  with n s l show ?thesis by (simp add: is_active_def)
qed

end
